theory Spec2Isabelle
  imports Complex_Main "HOL-Library.Sublist" "HOL-Library.Word"
begin

section \<open>Values, events and the external primitives\<close>

text \<open>
  The JavaScript values a descriptor field or a callback argument holds here. Numbers and
  objects do not occur in these positions of \<open>lib/grunt-helpers.js\<close>.
\<close>

datatype jsval = JUndefined | JNull | JBool bool | JStr string

text \<open>String concatenation \<open>'...' + v\<close> converts \<open>v\<close> with ToString.\<close>

fun js_to_string :: "jsval \<Rightarrow> string" where
  "js_to_string JUndefined = ''undefined''"
| "js_to_string JNull = ''null''"
| "js_to_string (JBool b) = (if b then ''true'' else ''false'')"
| "js_to_string (JStr s) = s"

text \<open>\<open>typeof v\<close>, for the values above.\<close>

fun typeof :: "jsval \<Rightarrow> string" where
  "typeof JUndefined = ''undefined''"
| "typeof JNull = ''object''"
| "typeof (JBool b) = ''boolean''"
| "typeof (JStr s) = ''string''"

text \<open>
  The colour getters that the colors module adds to strings (\<open>.blue\<close>, \<open>.green\<close>,
  \<open>.red\<close>). The module is not part of the repository: its rendering is a parameter
  \<open>paint\<close> of the functions below.
\<close>

datatype colour = Blue | Green | Red

type_synonym painter = "colour \<Rightarrow> string \<Rightarrow> string"

text \<open>\<open>helpers.log\<close>: every function prints its message with \<open>console.log\<close>.\<close>

datatype severity = Warn | Info | Error

text \<open>
  What a run does to the outside, in order: a shell command started, a line logged, a file
  read with \<open>grunt.file.read\<close>, a string handed to \<open>zlib.gzip\<close>, and the completion
  callback \<open>cb\<close> called with its argument list.
\<close>

datatype event =
    Exec string
  | Log severity string
  | FileRead string
  | Gzip string
  | Completion "jsval list"

text \<open>
  \<open>commandObj\<close>: the shell command, the label \<open>dest\<close> and, for the statistics, the output
  file object \<open>fileObj\<close> with a \<open>dest\<close> of its own (absent: \<open>None\<close>).
\<close>

record target =
  dest :: jsval

record commandObj = target +
  cmd :: string
  fileObj :: "target option"

text \<open>
  What \<open>child_process.exec\<close> hands to its callback: \<open>err\<close> (\<open>None\<close> for \<open>null\<close>, else the
  error as it prints), \<open>stdout\<close> and \<open>stderr\<close>. The shell changes the world \<open>'w\<close>, so the
  primitive takes the world and returns the next one.
\<close>

record exec_result =
  err :: "string option"
  stdout :: string
  stderr :: string

type_synonym 'w shell = "string \<Rightarrow> 'w \<Rightarrow> exec_result \<times> 'w"

section \<open>The command pipeline\<close>

text \<open>
  \<open>helpers.executeCommand(command, done, optSilent)\<close>. \<open>done\<close> is the continuation: it gets
  \<open>state\<close>, \<open>stderr\<close>, \<open>stdout\<close> (\<open>done(true)\<close> leaves the last two undefined) and the world
  after the command, and returns the events of the rest of the run with its result.
\<close>

definition executeCommand ::
  "painter \<Rightarrow> 'w shell \<Rightarrow> string \<Rightarrow> (bool \<Rightarrow> jsval \<Rightarrow> jsval \<Rightarrow> 'w \<Rightarrow> event list \<times> 'r) \<Rightarrow> bool \<Rightarrow>
   'w \<Rightarrow> event list \<times> 'r" where
  "executeCommand paint exec command done optSilent w =
     (let announce = (if \<not> optSilent then [Log Info (paint Blue ''Executing: '' @ command)] else []);
          (res, w') = exec command w
      in case err res of
           Some e \<Rightarrow>
             (let (t, r) = done False (JStr (stderr res)) (JStr (stdout res)) w'
              in (announce @ [Exec command, Log Error e] @ t, r))
         | None \<Rightarrow>
             (let said = (if \<not> optSilent
                          then [Log Info (if stdout res \<noteq> [] then stdout res else stderr res)]
                          else []);
                  (t, r) = done True JUndefined JUndefined w'
              in (announce @ [Exec command] @ said @ t, r)))"

text \<open>
  \<open>helpers.runCommands(commands, cb, optSilent)\<close>. \<open>commands.shift()\<close> takes the head off the
  caller's array, so the array that is left is part of the result, with the world. The
  completion callback \<open>cb\<close> is an observer: calling it is the event \<open>Completion\<close>.
\<close>

fun runCommands ::
  "painter \<Rightarrow> 'w shell \<Rightarrow> bool \<Rightarrow> commandObj list \<Rightarrow> 'w \<Rightarrow> event list \<times> commandObj list \<times> 'w" where
  "runCommands paint exec optSilent [] w = ([Completion [JBool True]], [], w)"
| "runCommands paint exec optSilent (commandObj # commands) w =
     executeCommand paint exec (cmd commandObj)
       (\<lambda>state stderr stdout w'.
          if state then
            (let (t, r) = runCommands paint exec optSilent commands w'
             in ((if \<not> optSilent
                  then [Log Info (''Command complete for target: '' @ js_to_string (dest commandObj))]
                  else []) @ t, r))
          else
            (let commandObj' = (if ''string'' \<noteq> typeof (dest commandObj)
                                then commandObj\<lparr>dest := JStr ''undefined''\<rparr> else commandObj)
             in ([Log Error (''FAILED to run command for target: ''
                              @ paint Red (js_to_string (dest commandObj'))),
                  Completion [JBool False, stderr, stdout]], commands, w')))
       optSilent w"

section \<open>Numbers\<close>

text \<open>
  A JavaScript number is an IEEE 754 double. A finite double is modelled by its exact
  rational value; the infinities and NaN are separate. The sign of zero is not kept: the
  arithmetic of \<open>generateStats\<close> only meets the zero of an empty length and of \<open>1 - 1\<close>,
  both positive.
\<close>

datatype jsnum = Finite rat | PInf | NInf | NaN

text \<open>The number of binary digits of a positive integer.\<close>

function bitlen :: "int \<Rightarrow> int" where
  "bitlen n = (if n \<le> 0 then 0 else 1 + bitlen (n div 2))"
  by pat_completeness auto
termination
  by (relation "measure nat") auto

declare bitlen.simps [simp del]

definition pow2 :: "int \<Rightarrow> rat" where
  "pow2 e = (if 0 \<le> e then 2 ^ nat e else 1 / 2 ^ nat (- e))"

text \<open>The binary exponent of a positive rational: \<open>pow2 (ilog2 x) \<le> x < pow2 (ilog2 x + 1)\<close>.\<close>

definition ilog2 :: "rat \<Rightarrow> int" where
  "ilog2 x = (if 1 \<le> x then bitlen \<lfloor>x\<rfloor> - 1 else - bitlen (\<lceil>1 / x\<rceil> - 1))"

definition round_half_even :: "rat \<Rightarrow> int" where
  "round_half_even x =
     (let n = \<lfloor>x\<rfloor>; r = x - of_int n
      in if r < 1 / 2 then n else if 1 / 2 < r then n + 1 else if even n then n else n + 1)"

text \<open>
  Rounding the exact result of an operation to the nearest double, ties to the even
  significand: 53 significant bits, the exponent of the last bit no smaller than -1074
  (subnormal numbers), and an infinity past the largest double \<open>(2^53 - 1) * 2^971\<close>.
\<close>

definition to_double :: "rat \<Rightarrow> jsnum" where
  "to_double x =
     (if x = 0 then Finite 0
      else let a = \<bar>x\<bar>;
               e = max (ilog2 a - 52) (- 1074);
               m = round_half_even (a / pow2 e)
           in if 971 < e \<or> e = 971 \<and> 2 ^ 53 \<le> m then (if x < 0 then NInf else PInf)
              else Finite (if x < 0 then - (of_int m * pow2 e) else of_int m * pow2 e))"

fun js_div :: "jsnum \<Rightarrow> jsnum \<Rightarrow> jsnum" where
  "js_div (Finite a) (Finite b) =
     (if b = 0 then (if a = 0 then NaN else if 0 < a then PInf else NInf)
      else to_double (a / b))"
| "js_div (Finite a) PInf = Finite 0"
| "js_div (Finite a) NInf = Finite 0"
| "js_div PInf (Finite b) = (if b < 0 then NInf else PInf)"
| "js_div NInf (Finite b) = (if b < 0 then PInf else NInf)"
| "js_div x y = NaN"

fun js_sub :: "jsnum \<Rightarrow> jsnum \<Rightarrow> jsnum" where
  "js_sub (Finite a) (Finite b) = to_double (a - b)"
| "js_sub (Finite a) PInf = NInf"
| "js_sub (Finite a) NInf = PInf"
| "js_sub PInf (Finite b) = PInf"
| "js_sub NInf (Finite b) = NInf"
| "js_sub PInf NInf = PInf"
| "js_sub NInf PInf = NInf"
| "js_sub x y = NaN"

fun js_mul :: "jsnum \<Rightarrow> jsnum \<Rightarrow> jsnum" where
  "js_mul (Finite a) (Finite b) = to_double (a * b)"
| "js_mul (Finite a) PInf = (if a = 0 then NaN else if 0 < a then PInf else NInf)"
| "js_mul (Finite a) NInf = (if a = 0 then NaN else if 0 < a then NInf else PInf)"
| "js_mul PInf (Finite b) = (if b = 0 then NaN else if 0 < b then PInf else NInf)"
| "js_mul NInf (Finite b) = (if b = 0 then NaN else if 0 < b then NInf else PInf)"
| "js_mul PInf PInf = PInf"
| "js_mul NInf NInf = PInf"
| "js_mul PInf NInf = NInf"
| "js_mul NInf PInf = NInf"
| "js_mul x y = NaN"

text \<open>\<open>!x\<close> for a number: zero and NaN are the falsy ones.\<close>

fun falsy :: "jsnum \<Rightarrow> bool" where
  "falsy NaN = True"
| "falsy (Finite q) = (q = 0)"
| "falsy x = False"

text \<open>The decimal digits of a non-negative integer.\<close>

function decimal :: "int \<Rightarrow> string" where
  "decimal n = (if n < 10 then [''0123456789'' ! nat n]
                else decimal (n div 10) @ [''0123456789'' ! nat (n mod 10)])"
  by pat_completeness auto
termination
  by (relation "measure nat") auto

declare decimal.simps [simp del]

text \<open>
  \<open>String(x)\<close> for a number. An integer below \<open>10^21\<close> prints as its decimal digits; for
  the other finite values the runtime's shortest-digits conversion is the parameter
  \<open>toString\<close>.
\<close>

definition js_number_string :: "(rat \<Rightarrow> string) \<Rightarrow> jsnum \<Rightarrow> string" where
  "js_number_string toString x =
     (case x of
        NaN \<Rightarrow> ''NaN''
      | PInf \<Rightarrow> ''Infinity''
      | NInf \<Rightarrow> ''-Infinity''
      | Finite q \<Rightarrow>
          if of_int \<lfloor>q\<rfloor> = q \<and> \<bar>q\<bar> < 10 ^ 21
          then (if q < 0 then ''-'' else []) @ decimal \<lfloor>\<bar>q\<bar>\<rfloor>
          else toString q)"

text \<open>
  \<open>x.toFixed(2)\<close> (ECMAScript, Number.prototype.toFixed): a value that is not finite prints
  as \<open>String(x)\<close>; otherwise the sign, then for \<open>x \<ge> 10^21\<close> the string of \<open>x\<close>, else the
  integer \<open>n\<close> with \<open>n / 100\<close> nearest to \<open>x\<close> (the larger one of two), padded to three
  digits, with a point before the last two.
\<close>

definition toFixed2 :: "(rat \<Rightarrow> string) \<Rightarrow> jsnum \<Rightarrow> string" where
  "toFixed2 toString x =
     (case x of
        Finite q \<Rightarrow>
          (let s = (if q < 0 then ''-'' else []);
               a = \<bar>q\<bar>
           in if 10 ^ 21 \<le> a then s @ js_number_string toString (Finite a)
              else let n = \<lfloor>a * 100 + 1 / 2\<rfloor>;
                       m = decimal n;
                       m' = (if length m \<le> 2 then replicate (3 - length m) (CHR ''0'') @ m else m)
                   in s @ take (length m' - 2) m' @ ''.'' @ drop (length m' - 2) m')
      | _ \<Rightarrow> js_number_string toString x)"

section \<open>The statistics pipeline\<close>

text \<open>
  A thrown value, by its message. A synchronous call ends normally or by a throw; a promise
  of the when module, once settled, is resolved with a value or rejected with a reason.
\<close>

type_synonym exn = string

datatype 'a settled = Resolved 'a | Rejected exn

text \<open>
  The primitives of the statistics, which the repository takes from its host:
  \<open>grunt.file.read\<close> returns the contents of a file or throws; \<open>zlib.gzip\<close> gives its
  callback an error or the compressed bytes; \<open>colors\<close> renders the colour getters; and
  \<open>number_toString\<close> is the number-to-string conversion of the runtime (see
  \<open>js_number_string\<close>).
\<close>

type_synonym byte = "8 word"

record env =
  grunt_file_read :: "string \<Rightarrow> exn + string"
  zlib_gzip :: "string \<Rightarrow> exn + byte list"
  colors :: painter
  number_toString :: "rat \<Rightarrow> string"

text \<open>
  A piece of the run over a mutable state \<open>'s\<close> (for \<open>runStats\<close> the array \<open>commands\<close>):
  the events it causes, the exception that leaves it if one does, and the state after.
\<close>

type_synonym 's comp = "'s \<Rightarrow> event list \<times> exn option \<times> 's"

text \<open>
  \<open>promise.then(f)\<close> and \<open>promise.otherwise(h)\<close> on a settled promise (Promises/A, as the
  when module implements it): the handler for the other outcome is skipped and the outcome
  passed on; a handler that returns resolves the new promise, one that throws rejects it.
\<close>

definition then_when ::
  "'a settled \<Rightarrow> ('a \<Rightarrow> 's comp) \<Rightarrow> 's \<Rightarrow> event list \<times> unit settled \<times> 's" where
  "then_when d f s =
     (case d of
        Rejected e \<Rightarrow> ([], Rejected e, s)
      | Resolved v \<Rightarrow>
          (case f v s of
             (t, None, s') \<Rightarrow> (t, Resolved (), s')
           | (t, Some e, s') \<Rightarrow> (t, Rejected e, s')))"

definition otherwise ::
  "'a settled \<Rightarrow> (exn \<Rightarrow> 's comp) \<Rightarrow> 's \<Rightarrow> event list \<times> unit settled \<times> 's" where
  "otherwise d h s =
     (case d of
        Resolved v \<Rightarrow> ([], Resolved (), s)
      | Rejected e \<Rightarrow>
          (case h e s of
             (t, None, s') \<Rightarrow> (t, Resolved (), s')
           | (t, Some e', s') \<Rightarrow> (t, Rejected e', s')))"

text \<open>
  \<open>helpers.gzipfile(filename)\<close>: the file is read while the arguments of \<open>gzip\<close> are
  evaluated, so a failing read is thrown out of \<open>gzipfile\<close> itself (\<open>Inl\<close>); otherwise the
  deferred is settled by the callback of \<open>gzip\<close>.
\<close>

definition gzipfile :: "env \<Rightarrow> string \<Rightarrow> event list \<times> (exn + byte list settled)" where
  "gzipfile env filename =
     (case grunt_file_read env filename of
        Inl e \<Rightarrow> ([FileRead filename], Inl e)
      | Inr content \<Rightarrow>
          ([FileRead filename, Gzip content],
           Inr (case zlib_gzip env content of
                  Inl error \<Rightarrow> Rejected error
                | Inr result \<Rightarrow> Resolved result)))"

text \<open>
  \<open>helpers.gzipSize(file, callback)\<close>: \<open>gzipfile(file).then(...).otherwise(...)\<close>, where
  \<open>gzipfile\<close> returns the deferred itself, whose \<open>then\<close> is that of its promise. The result
  is the exception thrown by the call (\<open>Inl\<close>) or the promise it returns, as settled.
\<close>

definition gzipSize ::
  "env \<Rightarrow> string \<Rightarrow> (jsnum \<Rightarrow> 's comp) \<Rightarrow> 's \<Rightarrow> event list \<times> (exn + unit settled) \<times> 's" where
  "gzipSize env file callback s =
     (case gzipfile env file of
        (t, Inl e) \<Rightarrow> (t, Inl e, s)
      | (t, Inr d) \<Rightarrow>
          (let (t1, p1, s1) = then_when d (\<lambda>res. callback (Finite (of_nat (length res)))) s;
               (t2, p2, s2) = otherwise p1 (\<lambda>_. callback NaN) s1
           in (t @ t1 @ t2, Inr p2, s2)))"

text \<open>
  The local \<open>percent\<close> of \<open>generateStats\<close>:
  \<open>String('-' + ((1 - (gzipSize / compiledSize)) * 100).toFixed(2) + '%')\<close>.
\<close>

definition percent_figure :: "(rat \<Rightarrow> string) \<Rightarrow> jsnum \<Rightarrow> jsnum \<Rightarrow> string" where
  "percent_figure toString gzipped compiledSize =
     ''-'' @ toFixed2 toString
               (js_mul (js_sub (Finite 1) (js_div gzipped compiledSize)) (Finite 100)) @ ''%''"




text \<open>
  \<open>helpers.generateStats(filePath, fn)\<close>. First the function that it hands to \<open>gzipSize\<close>
  as its callback, then \<open>generateStats\<close> itself: the promise of \<open>gzipSize\<close> is dropped, so a
  rejection of it is not seen; an exception thrown by \<open>gzipSize\<close> itself leaves
  \<open>generateStats\<close>.
\<close>

definition generateStats_callback ::
  "env \<Rightarrow> string \<Rightarrow> (bool \<Rightarrow> 's comp) \<Rightarrow> jsnum \<Rightarrow> 's comp" where
  "generateStats_callback env filePath fn gzipped s =
     (if falsy gzipped then fn False s
      else
        (case grunt_file_read env filePath of
           Inl e \<Rightarrow> ([FileRead filePath], Some e, s)
         | Inr src \<Rightarrow>
             (let compiledSize = Finite (of_nat (length src));
                  percent = percent_figure (number_toString env) gzipped compiledSize;
                  (t, r) = fn True s
              in ([FileRead filePath,
                   Log Info (''Compiled size:'' @ [CHR 0x09]
                     @ colors env Green
                         (toFixed2 (number_toString env) (js_div compiledSize (Finite 1024)))
                     @ '' kb '' @ [CHR 0x09] @ ''(''
                     @ colors env Green (js_number_string (number_toString env) compiledSize)
                     @ '' bytes)''),
                   Log Info (''GZipped size:'' @ [CHR 0x09]
                     @ colors env Green
                         (toFixed2 (number_toString env) (js_div gzipped (Finite 1024)))
                     @ '' kb '' @ [CHR 0x09] @ ''(''
                     @ colors env Green (js_number_string (number_toString env) gzipped)
                     @ '' bytes) '' @ percent)] @ t, r))))"

definition generateStats :: "env \<Rightarrow> string \<Rightarrow> (bool \<Rightarrow> 's comp) \<Rightarrow> 's comp" where
  "generateStats env filePath fn s =
     (case gzipSize env filePath (generateStats_callback env filePath fn) s of
        (t, Inl e, s') \<Rightarrow> (t, Some e, s')
      | (t, Inr p, s') \<Rightarrow> (t, None, s'))"

text \<open>
  \<open>helpers.fileExists(filePath)\<close>. \<open>fs.lstatSync\<close> throws or returns the record of the
  path; of that record only the file type matters here.
\<close>

datatype file_type = S_IFREG | S_IFDIR | S_IFLNK | S_IFBLK | S_IFCHR | S_IFIFO | S_IFSOCK

record stat =
  file_type :: file_type

definition isFile :: "stat \<Rightarrow> bool" where
  "isFile st = (file_type st = S_IFREG)"

definition isDirectory :: "stat \<Rightarrow> bool" where
  "isDirectory st = (file_type st = S_IFDIR)"

definition isSymbolicLink :: "stat \<Rightarrow> bool" where
  "isSymbolicLink st = (file_type st = S_IFLNK)"

definition fileExists :: "(string \<Rightarrow> exn + stat) \<Rightarrow> string \<Rightarrow> bool" where
  "fileExists lstatSync filePath =
     (case lstatSync filePath of
        Inr stat \<Rightarrow> if isFile stat \<or> isSymbolicLink stat then True else False
      | Inl ex \<Rightarrow> False)"

text \<open>
  \<open>helpers.runStats(commands, options, cb)\<close>. The callback handed to \<open>generateStats\<close> runs
  \<open>runStats\<close> on the array as it is at that moment. The test on the length of that array
  is not in the source: it bounds the recursion, and \<open>runStats_Cons\<close> below shows that it
  always holds, so that the function satisfies the equation without it.
\<close>

record options =
  compile :: bool

function runStats :: "env \<Rightarrow> options \<Rightarrow> commandObj list comp" where
  "runStats env options [] = ([Completion [JBool True]], None, [])"
| "runStats env options (commandObj # commands) =
     (if compile options then
        (case fileObj commandObj of
           None \<Rightarrow> ([], Some ''TypeError'', commands)
         | Some file \<Rightarrow>
             (case dest file of
                JStr d \<Rightarrow>
                  if d \<noteq> [] then
                    (let (t, r) =
                           generateStats env d
                             (\<lambda>_ cs. if length cs \<le> length commands
                                      then runStats env options cs else ([], None, cs))
                             commands
                     in (Log Info (''File statistics for '' @ colors env Green d) # t, r))
                  else ([], None, commands)
              | _ \<Rightarrow> ([], None, commands)))
      else ([Completion [JBool True]], None, commands))"
  by pat_completeness auto
termination
  by (relation "measure (\<lambda>(env, options, commands). length commands)") auto

section \<open>Observations on a run\<close>

text \<open>The shell commands started during a run, in order, and the calls of \<open>cb\<close>.\<close>

fun execs :: "event list \<Rightarrow> string list" where
  "execs [] = []"
| "execs (Exec c # t) = c # execs t"
| "execs (e # t) = execs t"

fun completions :: "event list \<Rightarrow> jsval list list" where
  "completions [] = []"
| "completions (Completion args # t) = args # completions t"
| "completions (e # t) = completions t"

text \<open>
  What the shell answers when the given commands are run one after the other from the
  world \<open>w\<close>: the reference against which "the first command to fail" is read.
\<close>

fun exec_all :: "'w shell \<Rightarrow> string list \<Rightarrow> 'w \<Rightarrow> exec_result list" where
  "exec_all exec [] w = []"
| "exec_all exec (c # cs) w = (let (r, w') = exec c w in r # exec_all exec cs w')"

text \<open>The label that the failure line of \<open>runCommands\<close> prints for a descriptor.\<close>

definition failure_label :: "commandObj \<Rightarrow> string" where
  "failure_label c = (if ''string'' \<noteq> typeof (dest c) then ''undefined'' else js_to_string (dest c))"

section \<open>Sample inputs\<close>

text \<open>
  A shell in which the command \<open>false\<close> fails and every other command succeeds; the world
  counts the commands run. Colours switched off. A queue of three descriptors whose second
  command fails and has no label.
\<close>

definition sample_shell :: "nat shell" where
  "sample_shell c w =
     (if c = ''false'' then \<lparr>err = Some ''Error: Command failed: false'', stdout = ''out'', stderr = ''boom''\<rparr>
      else \<lparr>err = None, stdout = ''ok'', stderr = []\<rparr>, Suc w)"

definition plain :: painter where
  "plain c s = s"

definition sample_queue :: "commandObj list" where
  "sample_queue =
     [\<lparr>dest = JStr ''a.js'', cmd = ''true'', fileObj = Some \<lparr>dest = JStr ''a.js''\<rparr>\<rparr>,
      \<lparr>dest = JUndefined, cmd = ''false'', fileObj = Some \<lparr>dest = JStr []\<rparr>\<rparr>,
      \<lparr>dest = JStr ''c.js'', cmd = ''echo c'', fileObj = Some \<lparr>dest = JStr ''c.js''\<rparr>\<rparr>]"

text \<open>
  A host with four paths: \<open>a.js\<close> holds the single character \<open>a\<close>, which gzip turns
  into 21 bytes; \<open>x.js\<close> holds 64 times the character \<open>x\<close>, for which the compressor of
  this sample answers 24 bytes; \<open>broken.js\<close> can be read but its compression fails;
  every other path cannot be read. A callback that only notes its argument in the state.
\<close>

definition sample_text :: string where
  "sample_text = ''xxxxxxxxxxxxxxxxxxxxxxxxxxxxxxxxxxxxxxxxxxxxxxxxxxxxxxxxxxxxxxxx''"

definition sample_env :: env where
  "sample_env =
     \<lparr>grunt_file_read =
        (\<lambda>p. if p = ''a.js'' then Inr ''a''
             else if p = ''x.js'' then Inr sample_text
             else if p = ''broken.js'' then Inr ''b''
             else Inl ''Unable to read file (Error code: ENOENT).''),
      zlib_gzip =
        (\<lambda>c. if c = ''a''
             then Inr [0x1f, 0x8b, 0x08, 0x00, 0x00, 0x00, 0x00, 0x00, 0x00, 0x03,
                       0x4b, 0x04, 0x00, 0x43, 0xbe, 0xb7, 0xe8, 0x01, 0x00, 0x00, 0x00]
             else if c = sample_text then Inr (replicate 24 0)
             else Inl ''Error: zlib failure''),
      colors = plain,
      number_toString = (\<lambda>q. [])\<rparr>"

definition noting :: "'a \<Rightarrow> 'a list comp" where
  "noting x calls = ([], None, calls @ [x])"

definition sample_lstat :: "string \<Rightarrow> exn + stat" where
  "sample_lstat p =
     (if p = ''a.js'' then Inr \<lparr>file_type = S_IFREG\<rparr>
      else if p = ''link'' then Inr \<lparr>file_type = S_IFLNK\<rparr>
      else if p = ''lib'' then Inr \<lparr>file_type = S_IFDIR\<rparr>
      else Inl ''ENOENT'')"

section \<open>Files as bytes\<close>






section \<open>The queue only shrinks\<close>

lemma gzipSize_suffix:
  assumes "\<And>x s'. suffix s' s \<Longrightarrow> suffix (snd (snd (callback x s'))) s'"
  shows "suffix (snd (snd (gzipSize env file callback s))) s"
proof (cases "gzipfile env file")
  case (Pair t r)
  show ?thesis
  proof (cases r)
    case (Inl e)
    with Pair show ?thesis by (simp add: gzipSize_def)
  next
    case (Inr d)
    have step: "suffix (snd (snd (callback x s))) s" for x
      using assms [of s x] by simp
    have step2: "suffix (snd (snd (callback y (snd (snd (callback x s)))))) s" for x y
      using assms [OF step [of x], of y] step [of x] suffix_order.trans by blast
    show ?thesis
    proof (cases d)
      case (Rejected e)
      with Pair Inr step [of NaN] show ?thesis
        by (auto simp: gzipSize_def then_when_def otherwise_def split: prod.splits option.splits)
    next
      case (Resolved res)
      with Pair Inr step [of "Finite (of_nat (length res))"]
        step2 [of NaN "Finite (of_nat (length res))"] show ?thesis
        by (auto simp: gzipSize_def then_when_def otherwise_def split: prod.splits option.splits)
    qed
  qed
qed

lemma generateStats_callback_suffix:
  assumes "\<And>b. suffix (snd (snd (fn b s))) s"
  shows "suffix (snd (snd (generateStats_callback env filePath fn x s))) s"
  using assms [of True] assms [of False]
  by (auto simp: generateStats_callback_def Let_def split: sum.splits prod.splits)

lemma generateStats_suffix:
  assumes "\<And>b s'. suffix s' s \<Longrightarrow> suffix (snd (snd (fn b s'))) s'"
  shows "suffix (snd (snd (generateStats env filePath fn s))) s"
proof -
  have "suffix (snd (snd (gzipSize env filePath (generateStats_callback env filePath fn) s))) s"
    by (rule gzipSize_suffix) (rule generateStats_callback_suffix, rule assms)
  then show ?thesis
    unfolding generateStats_def by (auto split: prod.splits sum.splits)
qed

lemma runStats_suffix: "suffix (snd (snd (runStats env options commands))) commands"
proof (induction env options commands rule: runStats.induct)
  case (1 env options)
  show ?case by simp
next
  case (2 env options commandObj commands)
  let ?k = "\<lambda>(_::bool) cs. if length cs \<le> length commands
                     then runStats env options cs else ([], None, cs)"
  show ?case
  proof (cases "compile options")
    case False
    then show ?thesis by (simp add: suffix_Cons)
  next
    case True
    show ?thesis
    proof (cases "fileObj commandObj")
      case None
      with True show ?thesis by (simp add: suffix_Cons)
    next
      case (Some fo)
      show ?thesis
      proof (cases "\<exists>d. dest fo = JStr d \<and> d \<noteq> []")
        case False
        with True Some show ?thesis by (auto simp: suffix_Cons split: jsval.splits)
      next
        case yes: True
        then obtain d where d: "dest fo = JStr d" "d \<noteq> []" by blast
        have k: "suffix (snd (snd (?k b cs))) cs" for b cs
          using "2.IH" [OF True Some d, of cs] by simp
        have "suffix (snd (snd (generateStats env d ?k commands))) commands"
          by (rule generateStats_suffix) (rule k)
        with True Some d show ?thesis
          by (auto simp: suffix_Cons split: prod.splits)
      qed
    qed
  qed
qed

lemma gzipSize_cong_suffix:
  assumes eq: "\<And>x s'. suffix s' s \<Longrightarrow> f x s' = g x s'"
    and suf: "\<And>x. suffix (snd (snd (f x s))) s"
  shows "gzipSize env file f s = gzipSize env file g s"
proof (cases "gzipfile env file")
  case (Pair t r)
  show ?thesis
  proof (cases r)
    case (Inl e)
    with Pair show ?thesis by (simp add: gzipSize_def)
  next
    case (Inr d)
    have one: "f x s = g x s" for x by (rule eq) simp
    have two: "f y (snd (snd (f x s))) = g y (snd (snd (f x s)))" for x y
      by (rule eq) (rule suf)
    show ?thesis
    proof (cases d)
      case (Rejected e)
      with Pair Inr one [of NaN] show ?thesis
        by (simp add: gzipSize_def then_when_def otherwise_def)
    next
      case (Resolved res)
      obtain t1 r1 s1 where f1: "f (Finite (of_nat (length res))) s = (t1, r1, s1)"
        by (cases "f (Finite (of_nat (length res))) s")
      with one [of "Finite (of_nat (length res))"]
      have g1: "g (Finite (of_nat (length res))) s = (t1, r1, s1)" by simp
      from two [of NaN "Finite (of_nat (length res))"] f1
      have "f NaN s1 = g NaN s1" by simp
      with Pair Inr Resolved f1 g1 show ?thesis
        by (simp add: gzipSize_def then_when_def otherwise_def split: option.splits)
    qed
  qed
qed

lemma generateStats_callback_cong:
  assumes "\<And>b. fn b s = fn' b s"
  shows "generateStats_callback env filePath fn x s = generateStats_callback env filePath fn' x s"
  unfolding generateStats_callback_def assms ..

lemma generateStats_cong_suffix:
  assumes eq: "\<And>b s'. suffix s' s \<Longrightarrow> fn b s' = fn' b s'"
    and suf: "\<And>b s'. suffix s' s \<Longrightarrow> suffix (snd (snd (fn b s'))) s'"
  shows "generateStats env filePath fn s = generateStats env filePath fn' s"
proof -
  have "gzipSize env filePath (generateStats_callback env filePath fn) s
      = gzipSize env filePath (generateStats_callback env filePath fn') s"
  proof (rule gzipSize_cong_suffix)
    fix x s' assume "suffix s' s"
    then show "generateStats_callback env filePath fn x s'
             = generateStats_callback env filePath fn' x s'"
      by (intro generateStats_callback_cong eq)
  next
    fix x show "suffix (snd (snd (generateStats_callback env filePath fn x s))) s"
      by (rule generateStats_callback_suffix) (rule suf, simp)
  qed
  then show ?thesis by (simp add: generateStats_def)
qed

lemma runStats_Cons:
  "runStats env options (commandObj # commands) =
     (if compile options then
        (case fileObj commandObj of
           None \<Rightarrow> ([], Some ''TypeError'', commands)
         | Some file \<Rightarrow>
             (case dest file of
                JStr d \<Rightarrow>
                  if d \<noteq> [] then
                    (let (t, r) = generateStats env d (\<lambda>_. runStats env options) commands
                     in (Log Info (''File statistics for '' @ colors env Green d) # t, r))
                  else ([], None, commands)
              | _ \<Rightarrow> ([], None, commands)))
      else ([Completion [JBool True]], None, commands))"
proof -
  have "generateStats env d
          (\<lambda>_ cs. if length cs \<le> length commands
                   then runStats env options cs else ([], None, cs)) commands
      = generateStats env d (\<lambda>_. runStats env options) commands" for d
  proof (rule generateStats_cong_suffix)
    fix b :: bool and s' :: "commandObj list"
    assume "suffix s' commands"
    then have len: "length s' \<le> length commands" by (rule suffix_length_le)
    then show "(if length s' \<le> length commands then runStats env options s' else ([], None, s'))
             = runStats env options s'" by simp
    from len show "suffix (snd (snd (if length s' \<le> length commands
                                     then runStats env options s' else ([], None, s')))) s'"
      by (simp add: runStats_suffix)
  qed
  then show ?thesis by (simp split: option.splits jsval.splits)
qed

section \<open>The command pipeline stops at the first failure\<close>

lemma execs_append: "execs (s @ t) = execs s @ execs t"
  by (induction s rule: execs.induct) simp_all

lemma completions_append: "completions (s @ t) = completions s @ completions t"
  by (induction s rule: completions.induct) simp_all

lemma runCommands_fails_at:
  "k < length commands \<Longrightarrow>
   \<forall>i<k. err (exec_all exec (map cmd commands) w ! i) = None \<Longrightarrow>
   err (exec_all exec (map cmd commands) w ! k) = Some e \<Longrightarrow>
   \<exists>pre w'. runCommands paint exec optSilent commands w =
       (pre @ [Exec (cmd (commands ! k)), Log Error e,
               Log Error (''FAILED to run command for target: ''
                            @ paint Red (failure_label (commands ! k))),
               Completion [JBool False,
                           JStr (stderr (exec_all exec (map cmd commands) w ! k)),
                           JStr (stdout (exec_all exec (map cmd commands) w ! k))]],
        drop (Suc k) commands, w') \<and>
     execs pre = map cmd (take k commands) \<and> completions pre = []"
proof (induction commands arbitrary: k w)
  case Nil
  then show ?case by simp
next
  case (Cons c cs)
  obtain r w1 where ex: "exec (cmd c) w = (r, w1)" by (cases "exec (cmd c) w")
  show ?case
  proof (cases k)
    case 0
    with Cons.prems ex have "err r = Some e" by simp
    with 0 ex show ?thesis
      by (cases optSilent) (simp_all add: executeCommand_def failure_label_def)
  next
    case (Suc j)
    from Cons.prems Suc ex have r: "err r = None" by (auto dest: spec [of _ 0])
    from Cons.prems Suc ex have j: "j < length cs" by simp
    from Cons.prems Suc ex have a: "\<forall>i<j. err (exec_all exec (map cmd cs) w1 ! i) = None"
      by (auto dest: spec [of _ "Suc i" for i])
    from Cons.prems Suc ex have b: "err (exec_all exec (map cmd cs) w1 ! j) = Some e" by simp
    from Cons.IH [OF j a b] obtain pre w' where
      run: "runCommands paint exec optSilent cs w1 =
       (pre @ [Exec (cmd (cs ! j)), Log Error e,
               Log Error (''FAILED to run command for target: ''
                            @ paint Red (failure_label (cs ! j))),
               Completion [JBool False,
                           JStr (stderr (exec_all exec (map cmd cs) w1 ! j)),
                           JStr (stdout (exec_all exec (map cmd cs) w1 ! j))]],
        drop (Suc j) cs, w')"
      and pre: "execs pre = map cmd (take j cs)" "completions pre = []"
      by blast
    let ?head = "(if \<not> optSilent then [Log Info (paint Blue ''Executing: '' @ cmd c)] else [])
          @ [Exec (cmd c)]
          @ (if \<not> optSilent
             then [Log Info (if stdout r \<noteq> [] then stdout r else stderr r)] else [])
          @ (if \<not> optSilent
             then [Log Info (''Command complete for target: '' @ js_to_string (dest c))]
             else [])"
    have "runCommands paint exec optSilent (c # cs) w =
       ((?head @ pre) @ [Exec (cmd ((c # cs) ! k)), Log Error e,
               Log Error (''FAILED to run command for target: ''
                            @ paint Red (failure_label ((c # cs) ! k))),
               Completion [JBool False,
                           JStr (stderr (exec_all exec (map cmd (c # cs)) w ! k)),
                           JStr (stdout (exec_all exec (map cmd (c # cs)) w ! k))]],
        drop (Suc k) (c # cs), w')"
      using run r ex Suc by (simp add: executeCommand_def)
    moreover have "execs (?head @ pre) = map cmd (take k (c # cs))"
      using pre Suc by (simp add: execs_append)
    moreover have "completions (?head @ pre) = []"
      using pre by (simp add: completions_append)
    ultimately show ?thesis by blast
  qed
qed

text \<open>
  Claim C6. On an empty queue \<open>runCommands\<close> calls the completion callback once, with
  the single argument \<open>true\<close>, and starts no shell command: the run is that one event,
  and the queue and the world are as before.
\<close>
theorem runCommands_empty:
  "runCommands paint exec optSilent [] w = ([Completion [JBool True]], [], w)"
  by simp

text \<open>
  Claim C1. When the command at position \<open>k\<close> (counted from 1) is the first of the queue
  to fail, \<open>runCommands\<close> starts exactly the first \<open>k\<close> commands, in the order of the
  queue, calls the completion callback exactly once, with \<open>false\<close> and the \<open>stderr\<close> and
  \<open>stdout\<close> of the failing command, and leaves the descriptors after position \<open>k\<close> in the
  queue, never run.
\<close>
theorem runCommands_first_failure:
  assumes "1 \<le> k" and "k \<le> length commands"
    and "\<forall>i<k - 1. err (exec_all exec (map cmd commands) w ! i) = None"
    and "err (exec_all exec (map cmd commands) w ! (k - 1)) \<noteq> None"
  shows "case runCommands paint exec optSilent commands w of
           (t, commands', w') \<Rightarrow>
             execs t = map cmd (take k commands) \<and>
             completions t =
               [[JBool False,
                 JStr (stderr (exec_all exec (map cmd commands) w ! (k - 1))),
                 JStr (stdout (exec_all exec (map cmd commands) w ! (k - 1)))]] \<and>
             commands' = drop k commands"
proof -
  from assms obtain e where e: "err (exec_all exec (map cmd commands) w ! (k - 1)) = Some e"
    by blast
  from assms have k: "k - 1 < length commands" "Suc (k - 1) = k" by simp_all
  have tk: "take k commands = take (k - 1) commands @ [commands ! (k - 1)]"
    using k take_Suc_conv_app_nth [of "k - 1" commands] by simp
  from runCommands_fails_at [OF k(1) assms(3) e, of paint optSilent] k(2) tk
  show ?thesis
    by (auto simp: execs_append completions_append)
qed

text \<open>
  Claim C8. When the failing command's \<open>dest\<close> is not a string (missing included), the
  failure line is printed with the label \<open>undefined\<close>, after it the completion callback
  gets \<open>false\<close> with the captured \<open>stderr\<close> and \<open>stdout\<close>, and nothing follows: the rest of
  the queue is left as it is.
\<close>
theorem runCommands_failure_label:
  assumes "1 \<le> k" and "k \<le> length commands"
    and "\<forall>i<k - 1. err (exec_all exec (map cmd commands) w ! i) = None"
    and "err (exec_all exec (map cmd commands) w ! (k - 1)) = Some e"
    and "\<forall>s. dest (commands ! (k - 1)) \<noteq> JStr s"
  shows "\<exists>pre w'. runCommands paint exec optSilent commands w =
           (pre @ [Exec (cmd (commands ! (k - 1))), Log Error e,
                   Log Error (''FAILED to run command for target: '' @ paint Red ''undefined''),
                   Completion [JBool False,
                     JStr (stderr (exec_all exec (map cmd commands) w ! (k - 1))),
                     JStr (stdout (exec_all exec (map cmd commands) w ! (k - 1)))]],
            drop k commands, w') \<and>
           execs pre = map cmd (take (k - 1) commands) \<and> completions pre = []"
proof -
  from assms have k: "k - 1 < length commands" "Suc (k - 1) = k" by simp_all
  from assms(5) have "failure_label (commands ! (k - 1)) = ''undefined''"
    by (cases "dest (commands ! (k - 1))") (simp_all add: failure_label_def)
  with runCommands_fails_at [OF k(1) assms(3) assms(4), of paint optSilent] k(2)
  show ?thesis by simp
qed


lemma sample_answers:
  "exec_all sample_shell (map cmd sample_queue) 0 =
     [\<lparr>err = None, stdout = ''ok'', stderr = []\<rparr>,
      \<lparr>err = Some ''Error: Command failed: false'', stdout = ''out'', stderr = ''boom''\<rparr>,
      \<lparr>err = None, stdout = ''ok'', stderr = []\<rparr>]"
  by (simp add: sample_shell_def sample_queue_def)

theorem runCommands_first_failure_witness:
  "(1::nat) \<le> 2 \<and> 2 \<le> length sample_queue \<and>
   err (exec_all sample_shell (map cmd sample_queue) 0 ! 0) = None \<and>
   err (exec_all sample_shell (map cmd sample_queue) 0 ! (2 - 1)) \<noteq> None \<and>
   (case runCommands plain sample_shell False sample_queue 0 of
      (t, commands', w') \<Rightarrow>
        execs t = [''true'', ''false''] \<and>
        completions t = [[JBool False, JStr ''boom'', JStr ''out'']] \<and>
        commands' = drop 2 sample_queue)"
proof -
  have h1: "(1::nat) \<le> 2" by simp
  have h2: "2 \<le> length sample_queue" by (simp add: sample_queue_def)
  have h3: "\<forall>i<2 - 1. err (exec_all sample_shell (map cmd sample_queue) 0 ! i) = None"
    by (simp add: sample_answers)
  have h4: "err (exec_all sample_shell (map cmd sample_queue) 0 ! (2 - 1)) \<noteq> None"
    by (simp add: sample_answers)
  from runCommands_first_failure [OF h1 h2 h3 h4, of plain False] h1 h2 h3 h4
  show ?thesis by (simp add: sample_answers) (simp add: sample_queue_def)
qed

theorem runCommands_failure_label_witness:
  "(1::nat) \<le> 2 \<and> 2 \<le> length sample_queue \<and>
   err (exec_all sample_shell (map cmd sample_queue) 0 ! 0) = None \<and>
   err (exec_all sample_shell (map cmd sample_queue) 0 ! (2 - 1))
     = Some ''Error: Command failed: false'' \<and>
   dest (sample_queue ! (2 - 1)) = JUndefined \<and>
   runCommands plain sample_shell True sample_queue 0 =
     ([Exec ''true'', Exec ''false'', Log Error ''Error: Command failed: false'',
       Log Error ''FAILED to run command for target: undefined'',
       Completion [JBool False, JStr ''boom'', JStr ''out'']],
      drop 2 sample_queue, 2)"
proof -
  have h1: "(1::nat) \<le> 2" by simp
  have h2: "2 \<le> length sample_queue" by (simp add: sample_queue_def)
  have h3: "\<forall>i<2 - 1. err (exec_all sample_shell (map cmd sample_queue) 0 ! i) = None"
    by (simp add: sample_answers)
  have h4: "err (exec_all sample_shell (map cmd sample_queue) 0 ! (2 - 1))
            = Some ''Error: Command failed: false''"
    by (simp add: sample_answers)
  have h5: "\<forall>s. dest (sample_queue ! (2 - 1)) \<noteq> JStr s" by (simp add: sample_queue_def)
  from runCommands_failure_label [OF h1 h2 h3 h4 h5, of plain True]
  obtain pre w' where
    "runCommands plain sample_shell True sample_queue 0 =
           (pre @ [Exec (cmd (sample_queue ! (2 - 1))), Log Error ''Error: Command failed: false'',
                   Log Error (''FAILED to run command for target: '' @ plain Red ''undefined''),
                   Completion [JBool False,
                     JStr (stderr (exec_all sample_shell (map cmd sample_queue) 0 ! (2 - 1))),
                     JStr (stdout (exec_all sample_shell (map cmd sample_queue) 0 ! (2 - 1)))]],
            drop 2 sample_queue, w')" by blast
  then have "runCommands plain sample_shell True sample_queue 0 =
     ([Exec ''true'', Exec ''false'', Log Error ''Error: Command failed: false'',
       Log Error ''FAILED to run command for target: undefined'',
       Completion [JBool False, JStr ''boom'', JStr ''out'']],
      drop 2 sample_queue, 2)"
    by (simp add: sample_queue_def sample_shell_def executeCommand_def plain_def)
  moreover have "dest (sample_queue ! (2 - 1)) = JUndefined" by (simp add: sample_queue_def)
  ultimately show ?thesis using h1 h2 h3 h4 by simp
qed

section \<open>The statistics pipeline and the file helpers\<close>

text \<open>
  Claim C2. With \<open>options.compile\<close> true and a head descriptor whose output file has an
  empty or absent \<open>dest\<close>, \<open>runStats\<close> takes the head off the queue and does nothing
  else: no event at all, so neither \<open>generateStats\<close> nor the completion callback is
  called, and the rest of the queue is not looked at.
\<close>
theorem runStats_stalls:
  assumes "compile options" and "fileObj commandObj = Some fo"
    and "dest fo = JStr [] \<or> dest fo = JUndefined"
  shows "runStats env options (commandObj # commands) = ([], None, commands)"
  using assms by auto

theorem runStats_stalls_witness:
  "compile \<lparr>compile = True\<rparr> \<and> fileObj (sample_queue ! 1) = Some \<lparr>dest = JStr []\<rparr> \<and>
   (dest \<lparr>dest = JStr []\<rparr> = JStr [] \<or> dest \<lparr>dest = JStr []\<rparr> = JUndefined) \<and>
   runStats sample_env \<lparr>compile = True\<rparr> (drop 1 sample_queue) = ([], None, drop 2 sample_queue)"
  using runStats_stalls [of "\<lparr>compile = True\<rparr>" "sample_queue ! 1" "\<lparr>dest = JStr []\<rparr>"
      sample_env "drop 2 sample_queue"]
  by (simp add: sample_queue_def)

text \<open>
  Claim C7. With \<open>options.compile\<close> false, \<open>runStats\<close> calls the completion callback with
  \<open>true\<close> and does nothing else, whatever the queue: no file is read or compressed and
  no statistics are logged.
\<close>
theorem runStats_not_compiled:
  assumes "\<not> compile options"
  shows "runStats env options commands = ([Completion [JBool True]], None, tl commands)"
  using assms by (cases commands) simp_all

theorem runStats_not_compiled_witness:
  "\<not> compile \<lparr>compile = False\<rparr> \<and>
   runStats sample_env \<lparr>compile = False\<rparr> sample_queue
     = ([Completion [JBool True]], None, tl sample_queue)"
  using runStats_not_compiled [of "\<lparr>compile = False\<rparr>" sample_env sample_queue] by simp

text \<open>
  Claim C9. On a non-empty queue \<open>runStats\<close> removes the head before it looks at
  \<open>options.compile\<close>: whatever the options, the queue it leaves is a suffix of the tail;
  and when \<open>options.compile\<close> is false the queue left is the tail, although success is
  reported and no statistics are computed.
\<close>
theorem runStats_shifts_first:
  "suffix (snd (snd (runStats env options (commandObj # commands)))) commands \<and>
   (\<not> compile options \<longrightarrow>
      runStats env options (commandObj # commands) = ([Completion [JBool True]], None, commands))"
proof
  have "suffix (snd (snd (generateStats env d (\<lambda>_. runStats env options) commands))) commands"
    for d
    by (rule generateStats_suffix) (rule runStats_suffix)
  then have "suffix q commands"
    if "generateStats env d (\<lambda>_. runStats env options) commands = (t, r, q)" for d t r q
    using that by (metis snd_conv)
  then show "suffix (snd (snd (runStats env options (commandObj # commands)))) commands"
    unfolding runStats_Cons
    by (auto split: option.splits jsval.splits prod.splits)
next
  show "\<not> compile options \<longrightarrow>
      runStats env options (commandObj # commands) = ([Completion [JBool True]], None, commands)"
    by simp
qed

theorem runStats_shifts_first_witness:
  "suffix (snd (snd (runStats sample_env \<lparr>compile = False\<rparr> sample_queue))) (tl sample_queue) \<and>
   \<not> compile \<lparr>compile = False\<rparr> \<and>
   runStats sample_env \<lparr>compile = False\<rparr> sample_queue
     = ([Completion [JBool True]], None, tl sample_queue)"
  using runStats_shifts_first [of sample_env "\<lparr>compile = False\<rparr>" "hd sample_queue" "tl sample_queue"]
  by (simp add: sample_queue_def)

text \<open>
  Claim C10. \<open>fileExists\<close> returns true only for a path whose \<open>lstat\<close> record is a regular
  file or a symbolic link; it returns false for a path that is a directory and for a path
  on which \<open>lstat\<close> throws.
\<close>
theorem fileExists_iff:
  "(fileExists lstatSync filePath \<longrightarrow>
      (\<exists>st. lstatSync filePath = Inr st \<and> (isFile st \<or> isSymbolicLink st))) \<and>
   (\<forall>st. lstatSync filePath = Inr st \<and> isDirectory st \<longrightarrow> \<not> fileExists lstatSync filePath) \<and>
   (\<forall>ex. lstatSync filePath = Inl ex \<longrightarrow> \<not> fileExists lstatSync filePath)"
  by (auto simp: fileExists_def isFile_def isSymbolicLink_def isDirectory_def split: sum.splits)

theorem fileExists_iff_witness:
  "fileExists sample_lstat ''a.js'' \<and> fileExists sample_lstat ''link'' \<and>
   sample_lstat ''lib'' = Inr \<lparr>file_type = S_IFDIR\<rparr> \<and> isDirectory \<lparr>file_type = S_IFDIR\<rparr> \<and>
   \<not> fileExists sample_lstat ''lib'' \<and>
   sample_lstat ''gone'' = Inl ''ENOENT'' \<and> \<not> fileExists sample_lstat ''gone''"
  using fileExists_iff [of sample_lstat "''lib''"] fileExists_iff [of sample_lstat "''gone''"]
  by (simp add: sample_lstat_def fileExists_def isFile_def isSymbolicLink_def isDirectory_def)

text \<open>
  Claim C5. When the gzip size comes out falsy (NaN after a failed compression, or zero),
  \<open>generateStats\<close> calls its callback once, with \<open>false\<close>, and does nothing more: after
  the read and the compression of \<open>gzipfile\<close> the run consists of that call alone, with no
  second read of the file and no size line. For NaN this holds for every callback; for a
  zero size the callback is taken to return normally.
\<close>
theorem generateStats_falsy:
  assumes "grunt_file_read env filePath = Inr content"
  shows "(\<forall>error. zlib_gzip env content = Inl error \<longrightarrow>
            generateStats env filePath fn s =
              (case fn False s of (t, r, s') \<Rightarrow> ([FileRead filePath, Gzip content] @ t, None, s'))) \<and>
         (\<forall>t s'. zlib_gzip env content = Inr [] \<and> fn False s = (t, None, s') \<longrightarrow>
            generateStats env filePath fn s = ([FileRead filePath, Gzip content] @ t, None, s'))"
  using assms
  by (auto simp: generateStats_def gzipSize_def gzipfile_def then_when_def otherwise_def
      generateStats_callback_def split: prod.splits option.splits)

theorem generateStats_falsy_witness:
  "grunt_file_read sample_env ''broken.js'' = Inr ''b'' \<and>
   zlib_gzip sample_env ''b'' = Inl ''Error: zlib failure'' \<and>
   generateStats sample_env ''broken.js'' noting [] =
     ([FileRead ''broken.js'', Gzip ''b''], None, [False])"
  using generateStats_falsy [of sample_env "''broken.js''" "''b''" noting "[]"]
  by (simp add: sample_env_def sample_text_def noting_def)

text \<open>
  What \<open>gzipSize\<close> does in each case. When the file is read and compressed, the callback
  gets the exact length of the compressed bytes and the promise is resolved; when the
  compression fails, the callback gets NaN and the promise is resolved (the callback is
  taken to return normally). When the read fails, the exception leaves \<open>gzipfile\<close> before
  any promise exists: \<open>gzipSize\<close> throws, and the callback is not called.
\<close>

lemma gzipSize_resolved:
  assumes "grunt_file_read env file = Inr content" and "zlib_gzip env content = Inr result"
    and "callback (Finite (of_nat (length result))) s = (t, None, s')"
  shows "gzipSize env file callback s = ([FileRead file, Gzip content] @ t, Inr (Resolved ()), s')"
  using assms by (simp add: gzipSize_def gzipfile_def then_when_def otherwise_def)

lemma gzipSize_rejected:
  assumes "grunt_file_read env file = Inr content" and "zlib_gzip env content = Inl error"
    and "callback NaN s = (t, None, s')"
  shows "gzipSize env file callback s = ([FileRead file, Gzip content] @ t, Inr (Resolved ()), s')"
  using assms by (simp add: gzipSize_def gzipfile_def then_when_def otherwise_def)

lemma gzipSize_throws:
  assumes "grunt_file_read env file = Inl e"
  shows "gzipSize env file callback s = ([FileRead file], Inl e, s)"
  using assms by (simp add: gzipSize_def gzipfile_def)

text \<open>
  Claim C3. \<open>gzipSize\<close> is to call its callback with the compressed length on success and
  with NaN on any failure, of reading or of compressing, and its promise is never to
  reject. The code misses the failing read: on the path \<open>missing.js\<close>, which cannot be
  read, \<open>gzipSize\<close> throws the error of \<open>grunt.file.read\<close>, returns no promise and never
  calls the callback (the list of noted calls stays empty).
\<close>

theorem gzipSize_unreadable:
  "gzipSize sample_env ''missing.js'' noting [] =
     ([FileRead ''missing.js''], Inl ''Unable to read file (Error code: ENOENT).'', [])"
  by (simp add: gzipSize_def gzipfile_def sample_env_def)

section \<open>Rounding to a double\<close>
























section \<open>The percent figure\<close>









end
